theory Spec2Isabelle
  imports Complex_Main
begin

section \<open>Python values and exceptions\<close>

text \<open>
  The values that reach \<open>SolarInverter.process_register\<close>: integers, floats and the
  register dictionary (integer address to integer register value). Python is dynamically
  typed, so the two positional parameters \<open>register_map\<close> and \<open>address\<close> can each hold
  any of them. A float is modelled by the rational number it stands for.
\<close>

datatype pyval = PInt int | PFloat rat | PDict "int \<rightharpoonup> int"

text \<open>
  The exceptions of the modelled code. \<open>KeyError\<close> carries the missing key as it was
  given (a float key that equals an integer finds that integer's entry);
  \<open>TypeError_not_subscriptable\<close> is raised by \<open>x[k]\<close> when \<open>x\<close> is a number;
  \<open>TypeError_unhashable\<close> by a dictionary used as a key;
  \<open>TypeError_unpack_None\<close> by \<open>a, b = None\<close>;
  \<open>AttributeError_None\<close> by a method call on \<open>None\<close>;
  \<open>TransportError\<close> stands for whatever the serial layer raises.
\<close>

datatype pyerr =
    KeyError pyval
  | TypeError_not_subscriptable
  | TypeError_unhashable
  | TypeError_unpack_None
  | AttributeError_None
  | TransportError

text \<open>\<open>container[key]\<close>, with the register value as the result.\<close>

fun subscript :: "pyval \<Rightarrow> pyval \<Rightarrow> pyerr + int" where
  "subscript (PDict m) (PInt k) =
     (case m k of None \<Rightarrow> Inl (KeyError (PInt k)) | Some v \<Rightarrow> Inr v)"
| "subscript (PDict m) (PFloat q) =
     (if of_int \<lfloor>q\<rfloor> = q
      then (case m \<lfloor>q\<rfloor> of None \<Rightarrow> Inl (KeyError (PFloat q)) | Some v \<Rightarrow> Inr v)
      else Inl (KeyError (PFloat q)))"
| "subscript (PDict m) (PDict k) = Inl TypeError_unhashable"
| "subscript (PInt n) k = Inl TypeError_not_subscriptable"
| "subscript (PFloat q) k = Inl TypeError_not_subscriptable"

section \<open>Register decoding\<close>

text \<open>
  Python's \<open>round(x, ndigits)\<close>: the nearest multiple of \<open>10 ^ -ndigits\<close>, a tie going to
  the even multiple.
\<close>

definition round_half_even :: "rat \<Rightarrow> int" where
  "round_half_even x =
     (let f = \<lfloor>x\<rfloor>; r = x - of_int f
      in if r < 1 / 2 then f
         else if 1 / 2 < r then f + 1
         else if even f then f else f + 1)"

definition py_round :: "rat \<Rightarrow> nat \<Rightarrow> rat" where
  "py_round x ndigits = of_int (round_half_even (x * 10 ^ ndigits)) / 10 ^ ndigits"

text \<open>
  \<open>SolarInverter.process_register(self, register_map, address, decimals=0, signed=False)\<close>.
  The lookup \<open>register_map[address]\<close> comes first and may raise; the debug log line is
  not modelled.
\<close>

definition process_register :: "pyval \<Rightarrow> pyval \<Rightarrow> int \<Rightarrow> bool \<Rightarrow> pyerr + pyval" where
  "process_register register_map address decimals signed =
     (case subscript register_map address of
        Inl e \<Rightarrow> Inl e
      | Inr raw \<Rightarrow>
          (let v = (if signed \<and> 32767 < raw then raw - 65536 else raw)
           in if 0 < decimals
              then Inr (PFloat (py_round (of_int v / 10 ^ nat decimals) (nat decimals)))
              else Inr (PInt v)))"

section \<open>Telemetry mapping\<close>

text \<open>
  \<open>SolarInverter.get_telemetry\<close> is a straight line of \<open>process_register\<close> calls, each
  result stored under one key of the \<open>feedback\<close> dictionary. The calls are listed here in
  source order as (feedback key, first positional argument, decimals, signed). Every call
  in the source passes the register number first and the register dictionary second.
\<close>

definition telemetry_calls :: "(string \<times> int \<times> int \<times> bool) list" where
  "telemetry_calls =
    [(''battery_voltage'', 277, 1, False),
     (''battery_current'', 278, 1, True),
     (''battery_power'', 279, 0, True),
     (''battery_soc'', 280, 0, False),
     (''grid_input_voltage'', 338, 1, False),
     (''grid_line_voltage'', 342, 1, False),
     (''grid_power'', 340, 0, False),
     (''l1_voltage'', 346, 1, False),
     (''l1_current'', 347, 1, False),
     (''l1_power'', 348, 0, True),
     (''l1_apparent_power'', 349, 0, True),
     (''l1_load'', 350, 0, False),
     (''l2_voltage'', 384, 1, False),
     (''l2_current'', 385, 1, False),
     (''l2_apparent_power'', 386, 0, True),
     (''l2_power'', 387, 0, True),
     (''l2_load'', 388, 0, False),
     (''total_output_power'', 344, 0, False),
     (''total_output_load'', 256, 0, False),
     (''pv1_voltage'', 351, 1, False),
     (''pv1_current'', 352, 1, False),
     (''pv1_power'', 353, 0, False),
     (''pv2_voltage'', 389, 1, False),
     (''pv2_current'', 390, 1, False),
     (''pv2_power'', 391, 0, False),
     (''total_pv_power'', 302, 0, False),
     (''year'', 696, 0, False),
     (''month'', 697, 0, False),
     (''day'', 698, 0, False),
     (''hour'', 699, 0, False),
     (''minute'', 700, 0, False),
     (''second'', 701, 0, False),
     (''energy_today'', 702, 2, False),
     (''energy_year'', 704, 2, False),
     (''voltage_conf'', 606, 1, False),
     (''l2_power_conf'', 607, 0, False),
     (''frequency_conf'', 608, 0, False),
     (''floating_charging_voltage'', 638, 1, False),
     (''max_total_charging_current'', 640, 1, False),
     (''max_grid_charging_current'', 641, 1, False),
     (''soc_point_back_to_utility'', 644, 1, False),
     (''l1_cutoff_voltage'', 645, 1, False),
     (''l2_cutoff_voltage'', 646, 1, False)]"

type_synonym feedback = "(string \<times> pyval) list"

text \<open>
  The calls run in order; the first one that raises ends the method, and the partly built
  \<open>feedback\<close> dictionary, a local, is lost with it.
\<close>

fun run_calls :: "(int \<rightharpoonup> int) \<Rightarrow> (string \<times> int \<times> int \<times> bool) list \<Rightarrow> pyerr + feedback" where
  "run_calls register_map [] = Inr []"
| "run_calls register_map ((key, reg, decimals, signed) # rest) =
     (case process_register (PInt reg) (PDict register_map) decimals signed of
        Inl e \<Rightarrow> Inl e
      | Inr v \<Rightarrow>
          (case run_calls register_map rest of
             Inl e \<Rightarrow> Inl e
           | Inr kvs \<Rightarrow> Inr ((key, v) # kvs)))"

text \<open>The returned dictionary is \<open>{"normal": feedback}\<close>.\<close>

type_synonym telemetry_feedback = "(string \<times> feedback) list"

definition get_telemetry :: "(int \<rightharpoonup> int) \<Rightarrow> pyerr + telemetry_feedback" where
  "get_telemetry register_map =
     (case run_calls register_map telemetry_calls of
        Inl e \<Rightarrow> Inl e
      | Inr fb \<Rightarrow> Inr [(''normal'', fb)])"

section \<open>Paged Modbus reads\<close>

text \<open>
  \<open>serial\<close> is what \<open>instrument.serial\<close> holds, as far as \<open>_serial_is_open\<close> can tell:
  nothing (a falsy value), a port with the \<open>is_open\<close> property, a port that only has the
  older \<open>isOpen()\<close> method (\<open>None\<close> when the call raises), or an object with neither.
\<close>

datatype serial_port =
    NoSerial
  | SerialProperty bool
  | SerialMethod "bool option"
  | SerialPlain

text \<open>
  The Modbus instrument is outside the program, so its behaviour is a parameter:
  \<open>respond n a\<close> is what the bulk read of \<open>REGISTER_PAGE\<close> registers at address \<open>a\<close>
  does when \<open>n\<close> bulk reads were issued before it (it raises, or it returns the register
  values), and the two flush fields say whether flushing a buffer raises. \<open>reads\<close> is the
  history of the addresses asked for, oldest first.
\<close>

record modbus_instrument =
  respond :: "nat \<Rightarrow> int \<Rightarrow> pyerr + int list"
  reads :: "int list"
  flush_output_error :: "pyerr option"
  flush_input_error :: "pyerr option"
  serial :: serial_port

definition FRAME_READ_RETRIES :: nat where
  "FRAME_READ_RETRIES = 5"

definition REGISTER_PAGE :: int where
  "REGISTER_PAGE = 124"

text \<open>
  \<open>SolarInverter.read_registers\<close>: \<open>values\<close> starts as the empty list and stays so when
  the instrument raises (the exception is logged and swallowed).
\<close>

definition read_registers :: "int \<Rightarrow> modbus_instrument \<Rightarrow> int list \<times> modbus_instrument" where
  "read_registers page_address ins =
     (let ins' = ins\<lparr>reads := reads ins @ [page_address]\<rparr>
      in case respond ins (length (reads ins)) page_address of
           Inl e \<Rightarrow> ([], ins')
         | Inr vals \<Rightarrow> (vals, ins'))"

text \<open>
  The inner loop \<open>for ret in range(self.FRAME_READ_RETRIES): values = self.read_registers(page_address)\<close>.
  Its body is the assignment alone, so every pass reads again and overwrites \<open>values\<close>.
\<close>

fun read_attempts :: "nat list \<Rightarrow> int \<Rightarrow> int list \<Rightarrow> modbus_instrument \<Rightarrow> int list \<times> modbus_instrument" where
  "read_attempts [] page_address vals ins = (vals, ins)"
| "read_attempts (ret # rets) page_address vals ins =
     (case read_registers page_address ins of
        (vals', ins') \<Rightarrow> read_attempts rets page_address vals' ins')"

text \<open>\<open>{page_address + i: val for i, val in enumerate(values)}\<close>\<close>

definition page_dict :: "int \<Rightarrow> int list \<Rightarrow> (int \<rightharpoonup> int)" where
  "page_dict page_address vals =
     map_of (map (\<lambda>(i, val). (page_address + int i, val)) (enumerate 0 vals))"

text \<open>
  The outer loop \<open>for p in range(pages)\<close> of \<open>SolarInverter.read_modbus\<close>. After the inner
  loop, \<open>if len(values) > 0: break\<close> stands in the body of the outer loop: it leaves the
  loop over the pages. Otherwise the dictionary of the page is merged into
  \<open>register_map\<close> with \<open>|=\<close>. The sleeps and log lines are not modelled.
\<close>

fun read_pages :: "nat list \<Rightarrow> int \<Rightarrow> (int \<rightharpoonup> int) \<Rightarrow> modbus_instrument \<Rightarrow> (int \<rightharpoonup> int) \<times> modbus_instrument" where
  "read_pages [] start_address register_map ins = (register_map, ins)"
| "read_pages (p # ps) start_address register_map ins =
     (let page_address = start_address + REGISTER_PAGE * int p
      in case read_attempts [0..<FRAME_READ_RETRIES] page_address [] ins of
           (vals, ins') \<Rightarrow>
             if 0 < length vals then (register_map, ins')
             else read_pages ps start_address (register_map ++ page_dict page_address vals) ins')"

definition read_modbus :: "(int \<rightharpoonup> int) \<Rightarrow> int \<Rightarrow> nat \<Rightarrow> modbus_instrument \<Rightarrow> (int \<rightharpoonup> int) \<times> modbus_instrument" where
  "read_modbus register_map start_address pages ins =
     read_pages [0..<pages] start_address register_map ins"

section \<open>The poll cycle\<close>

type_synonym log_data = "(string \<times> telemetry_feedback) list"

record solar_inverter =
  modbus_id :: int
  last_status :: "log_data option"

text \<open>
  What \<open>read_serial_data\<close> returns: the bare \<open>None\<close> of its first \<open>return\<close>, or a pair.
\<close>

datatype poll_result = PollNone | PollPair "log_data option" bool

text \<open>
  The body of the \<open>try\<close> block of \<open>read_serial_data\<close> up to the mapping: both flushes,
  the two paged reads into a fresh \<open>register_map\<close> (3 pages from 100, 1 page from 600),
  then \<open>get_telemetry\<close>, whose result becomes \<open>log_data["telemetry"]\<close>. \<open>Inl\<close> is an
  exception on its way to the \<open>except Exception\<close> handler. \<open>get_telemetry\<close> returns a
  dictionary whenever it returns, so the \<open>is None\<close> test after it never fires.
\<close>

definition poll_try :: "modbus_instrument \<Rightarrow> (pyerr + log_data) \<times> modbus_instrument" where
  "poll_try ins =
     (case flush_output_error ins of
        Some e \<Rightarrow> (Inl e, ins)
      | None \<Rightarrow>
          (case flush_input_error ins of
             Some e \<Rightarrow> (Inl e, ins)
           | None \<Rightarrow>
               (case read_modbus Map.empty 100 3 ins of
                  (register_map1, ins1) \<Rightarrow>
                    (case read_modbus register_map1 600 1 ins1 of
                       (register_map2, ins2) \<Rightarrow>
                         (case get_telemetry register_map2 of
                            Inl e \<Rightarrow> (Inl e, ins2)
                          | Inr telemetry_feedback \<Rightarrow>
                              (Inr [(''telemetry'', telemetry_feedback)], ins2))))))"

text \<open>
  The rest of \<open>read_serial_data\<close>, given how the \<open>try\<close> body went so far: the
  \<open>except Exception\<close> handler logs and returns \<open>(None, False)\<close>; otherwise the new
  \<open>log_data\<close> is compared with \<open>self.last_status\<close> and is remembered and returned when
  there was none or it differs.
\<close>

definition poll_finish :: "solar_inverter \<Rightarrow> pyerr + log_data \<Rightarrow> poll_result \<times> solar_inverter" where
  "poll_finish self outcome =
     (case outcome of
        Inl e \<Rightarrow> (PollPair None False, self)
      | Inr log_data \<Rightarrow>
          if last_status self = None \<or> last_status self \<noteq> Some log_data
          then (PollPair (Some log_data) True, self\<lparr>last_status := Some log_data\<rparr>)
          else (PollPair None True, self))"

text \<open>
  \<open>SolarInverter.read_serial_data\<close>, with \<open>app_state.instrument\<close> as the second
  argument. The result is the returned value, the inverter object (its \<open>last_status\<close>
  may change) and the instrument.
\<close>

definition read_serial_data :: "solar_inverter \<Rightarrow> modbus_instrument option \<Rightarrow> poll_result \<times> solar_inverter \<times> modbus_instrument option" where
  "read_serial_data self inst =
     (case inst of
        None \<Rightarrow> (PollNone, self, None)
      | Some ins \<Rightarrow>
          (case poll_try ins of
             (outcome, ins') \<Rightarrow>
               (case poll_finish self outcome of
                  (polled, self') \<Rightarrow> (polled, self', Some ins'))))"

section \<open>Configuration, broker client and shared state\<close>

text \<open>
  The three settings of \<open>Config\<close> the modelled code reads. \<open>get_env_value\<close> with
  \<open>return_type=int\<close> yields an integer (the default when the variable does not parse).
\<close>

record config =
  MODBUS_ID :: int
  MQTT_TOPIC :: string
  MQTT_UPDATE_INTERVAL :: int

text \<open>
  A published payload: a plain string, the heartbeat document (\<open>last_publish\<close>,
  \<open>publish_counter\<close>) or the telemetry document, the last two before \<open>json.dumps\<close>.
\<close>

datatype payload =
    Text string
  | Heartbeat string int
  | Sensors log_data

record message =
  topic :: string
  body :: payload
  retain :: bool

text \<open>
  The broker client as the program sees it: \<open>outbox\<close> collects what \<open>publish\<close> was
  called with, oldest first; \<open>loop_thread\<close> is the \<open>_thread\<close> attribute (\<open>None\<close> when
  there is no network thread, else whether \<open>is_alive()\<close> holds).
\<close>

record mqtt_client_state =
  outbox :: "message list"
  loop_thread :: "bool option"

definition publish :: "string \<Rightarrow> payload \<Rightarrow> bool \<Rightarrow> mqtt_client_state \<Rightarrow> mqtt_client_state" where
  "publish t p r c = c\<lparr>outbox := outbox c @ [\<lparr>topic = t, body = p, retain = r\<rparr>]\<rparr>"

text \<open>The dictionary \<open>app_state.inverter\<close> that \<open>main\<close> creates, with its four keys.\<close>

record inverter_health =
  address :: int
  last_success_ts :: real
  publish_counter :: int
  availability :: string

text \<open>
  \<open>app_state\<close> together with the two module-level globals \<open>last_update_ts\<close> and
  \<open>mqtt_connected\<close>.
\<close>

record app =
  mqtt_client :: "mqtt_client_state option"
  instrument :: "modbus_instrument option"
  inverter :: inverter_health
  last_update_ts :: real
  mqtt_connected :: bool

text \<open>\<open>str\<close> of an integer, for the topic names.\<close>

fun str_nat :: "nat \<Rightarrow> string" where
  "str_nat n =
     (if n < 10 then [char_of (48 + n)]
      else str_nat (n div 10) @ [char_of (48 + n mod 10)])"

declare str_nat.simps [simp del]

definition str_int :: "int \<Rightarrow> string" where
  "str_int i = (if i < 0 then CHR ''-'' # str_nat (nat (- i)) else str_nat (nat i))"

definition availability_topic :: "config \<Rightarrow> int \<Rightarrow> string" where
  "availability_topic cfg device = MQTT_TOPIC cfg @ ''/inverter-'' @ str_int device @ ''/availability''"

definition heartbeat_topic :: "config \<Rightarrow> int \<Rightarrow> string" where
  "heartbeat_topic cfg device = MQTT_TOPIC cfg @ ''/inverter-'' @ str_int device @ ''/heartbeat''"

definition sensors_topic :: "config \<Rightarrow> int \<Rightarrow> string" where
  "sensors_topic cfg device = MQTT_TOPIC cfg @ ''/inverter-'' @ str_int device @ ''/sensors''"

definition process_topic :: "config \<Rightarrow> string" where
  "process_topic cfg = MQTT_TOPIC cfg @ ''/availability''"

section \<open>Health and availability\<close>

definition serial_is_open :: "app \<Rightarrow> bool" where
  "serial_is_open st =
     (case instrument st of
        None \<Rightarrow> False
      | Some ins \<Rightarrow>
          (case serial ins of
             NoSerial \<Rightarrow> False
           | SerialProperty b \<Rightarrow> b
           | SerialMethod None \<Rightarrow> False
           | SerialMethod (Some b) \<Rightarrow> b
           | SerialPlain \<Rightarrow> False))"

definition mqtt_loop_running :: "app \<Rightarrow> bool" where
  "mqtt_loop_running st =
     (case mqtt_client st of
        None \<Rightarrow> False
      | Some c \<Rightarrow> (case loop_thread c of None \<Rightarrow> False | Some alive \<Rightarrow> alive))"

definition compute_max_age_seconds :: "config \<Rightarrow> int" where
  "compute_max_age_seconds cfg =
     (let cycle_pause = MQTT_UPDATE_INTERVAL cfg;
          expected_cycle = max cycle_pause 0
      in max 15 (expected_cycle * 3 + 5))"

text \<open>
  \<open>HealthHandler.do_GET\<close> for a request to \<open>path\<close> answered at time \<open>now\<close>: the status
  code and the bytes written.
\<close>

definition do_GET :: "config \<Rightarrow> string \<Rightarrow> real \<Rightarrow> app \<Rightarrow> nat \<times> string" where
  "do_GET cfg path now st =
     (if path \<noteq> ''/health'' then (404, [])
      else
        (let max_age = compute_max_age_seconds cfg;
             healthy = (mqtt_connected st \<and> mqtt_loop_running st \<and> serial_is_open st
                        \<and> now - last_update_ts st < of_int max_age)
         in if healthy then (200, ''ok'') else (503, ''unhealthy'')))"

text \<open>
  \<open>_publish_inverter_availability(inverter, now)\<close>; the \<open>inverter\<close> argument is the
  dictionary \<open>app_state.inverter\<close> itself.
\<close>

definition publish_inverter_availability :: "config \<Rightarrow> real \<Rightarrow> app \<Rightarrow> app" where
  "publish_inverter_availability cfg now st =
     (case mqtt_client st of
        None \<Rightarrow> st
      | Some c \<Rightarrow>
          (let max_age = compute_max_age_seconds cfg;
               last_success = last_success_ts (inverter st);
               is_online = (0 < last_success \<and> now - last_success \<le> of_int max_age);
               desired = (if is_online then ''online'' else ''offline'')
           in if availability (inverter st) \<noteq> desired
              then st\<lparr>mqtt_client :=
                        Some (publish (availability_topic cfg (address (inverter st))) (Text desired) False c),
                      inverter := (inverter st)\<lparr>availability := desired\<rparr>\<rparr>
              else st))"

section \<open>The main loop\<close>

text \<open>
  The start of \<open>main\<close> up to the assignment of \<open>last_update_ts\<close>: \<open>client\<close> and \<open>ins\<close> are
  what \<open>initialize_mqtt\<close> and \<open>initialize_serial\<close> returned and \<open>now\<close> is \<open>time.time()\<close>.
  The discovery documents sent afterwards go to other topics and are not modelled.
\<close>

definition main_startup :: "config \<Rightarrow> mqtt_client_state \<Rightarrow> modbus_instrument \<Rightarrow> real \<Rightarrow> app \<Rightarrow> app \<times> solar_inverter" where
  "main_startup cfg client ins now st =
     (st\<lparr>mqtt_client := Some (publish (availability_topic cfg (MODBUS_ID cfg)) (Text ''offline'') False client),
         instrument := Some ins,
         inverter := \<lparr>address = MODBUS_ID cfg, last_success_ts = 0, publish_counter = 0,
                      availability = ''offline''\<rparr>,
         last_update_ts := now\<rparr>,
      \<lparr>modbus_id = MODBUS_ID cfg, last_status = None\<rparr>)"

text \<open>
  One pass through the body of \<open>while True\<close>, from the unpacking of what
  \<open>read_serial_data\<close> returned (\<open>polled\<close>) to the process-level pulse; \<open>now\<close> is
  \<open>time.time()\<close> and \<open>stamp\<close> the formatted \<open>datetime.now()\<close>. The result is the
  exception that reached the loop's \<open>except Exception\<close> handler, if any, and the state
  as the pass left it: assignments made before an exception stay. A \<open>publish\<close> on a
  missing client raises; \<open>if log_data\<close> holds for a dictionary that is not empty; the
  sleeps and log lines are not modelled.
\<close>

definition main_iteration :: "config \<Rightarrow> poll_result \<Rightarrow> real \<Rightarrow> string \<Rightarrow> app \<Rightarrow> pyerr option \<times> app" where
  "main_iteration cfg polled now stamp st =
     (case polled of
        PollNone \<Rightarrow> (Some TypeError_unpack_None, st)
      | PollPair log_data poll_success \<Rightarrow>
          (let st1 =
                 (if poll_success
                  then st\<lparr>last_update_ts := now,
                          inverter := (inverter st)\<lparr>last_success_ts := now,
                                                     publish_counter := publish_counter (inverter st) + 1\<rparr>\<rparr>
                  else st)
           in case mqtt_client st1 of
                None \<Rightarrow> (Some AttributeError_None, st1)
              | Some c \<Rightarrow>
                  (let c1 =
                         (if poll_success
                          then publish (availability_topic cfg (MODBUS_ID cfg)) (Text ''online'') False
                                 (publish (heartbeat_topic cfg (MODBUS_ID cfg))
                                    (Heartbeat stamp (publish_counter (inverter st1))) False c)
                          else c);
                       inv1 =
                         (if poll_success then (inverter st1)\<lparr>availability := ''online''\<rparr>
                          else inverter st1);
                       c2 =
                         (case log_data of
                            None \<Rightarrow> c1
                          | Some d \<Rightarrow>
                              if d \<noteq> []
                              then publish (sensors_topic cfg (MODBUS_ID cfg)) (Sensors d) False c1
                              else c1);
                       st2 = publish_inverter_availability cfg now
                               (st1\<lparr>mqtt_client := Some c2, inverter := inv1\<rparr>)
                   in case mqtt_client st2 of
                        None \<Rightarrow> (Some AttributeError_None, st2)
                      | Some c3 \<Rightarrow>
                          (None, st2\<lparr>mqtt_client := Some (publish (process_topic cfg) (Text ''online'') False c3)\<rparr>))))"

text \<open>
  The loop over a finite run of passes: each element is what the poll cycle returned in
  that pass, with the clock reading and the time stamp. The handler of the loop logs the
  exception and goes on with the next pass.
\<close>

fun main_loop :: "config \<Rightarrow> (poll_result \<times> real \<times> string) list \<Rightarrow> app \<Rightarrow> app" where
  "main_loop cfg [] st = st"
| "main_loop cfg ((polled, now, stamp) # rest) st =
     main_loop cfg rest (snd (main_iteration cfg polled now stamp st))"

text \<open>
  One pass with the poll cycle in it: \<open>solar_inverter.read_serial_data()\<close> on the shared
  instrument, then the rest of the body.
\<close>

definition main_step :: "config \<Rightarrow> real \<Rightarrow> string \<Rightarrow> solar_inverter \<times> app \<Rightarrow> pyerr option \<times> solar_inverter \<times> app" where
  "main_step cfg now stamp s =
     (case s of
        (solar, st) \<Rightarrow>
          (case read_serial_data solar (instrument st) of
             (polled, solar', inst') \<Rightarrow>
               (case main_iteration cfg polled now stamp (st\<lparr>instrument := inst'\<rparr>) of
                  (err, st') \<Rightarrow> (err, solar', st'))))"

section \<open>Observations and concrete inputs\<close>

text \<open>Whether a value returned by the poll cycle is a pair whose flag is true.\<close>

fun poll_succeeded :: "poll_result \<Rightarrow> bool" where
  "poll_succeeded PollNone = False"
| "poll_succeeded (PollPair log_data poll_success) = poll_success"

text \<open>
  What was published so far, and the payloads that reached the availability topic of the
  configured device between two states.
\<close>

definition sent :: "app \<Rightarrow> message list" where
  "sent st = (case mqtt_client st of None \<Rightarrow> [] | Some c \<Rightarrow> outbox c)"

definition availability_sent :: "config \<Rightarrow> app \<Rightarrow> app \<Rightarrow> payload list" where
  "availability_sent cfg st st' =
     map body (filter (\<lambda>m. topic m = availability_topic cfg (MODBUS_ID cfg))
                 (drop (length (sent st)) (sent st')))"

text \<open>
  The state that \<open>_publish_inverter_availability\<close> computes at time \<open>now\<close> from a last
  success time (its \<open>is_online\<close> and \<open>desired\<close>).
\<close>

definition desired_availability :: "config \<Rightarrow> real \<Rightarrow> real \<Rightarrow> string" where
  "desired_availability cfg now last_success =
     (if 0 < last_success \<and> now - last_success \<le> of_int (compute_max_age_seconds cfg)
      then ''online'' else ''offline'')"

text \<open>The default configuration: device 1, topic prefix \<open>inverter\<close>, 30 seconds.\<close>

definition cfg30 :: config where
  "cfg30 = \<lparr>MODBUS_ID = 1, MQTT_TOPIC = ''inverter'', MQTT_UPDATE_INTERVAL = 30\<rparr>"

text \<open>
  An instrument whose first four bulk reads raise and whose later ones return 124
  registers, each holding 7.
\<close>

definition flaky_instrument :: modbus_instrument where
  "flaky_instrument =
     \<lparr>respond = (\<lambda>n a. if n < 4 then Inl TransportError else Inr (replicate 124 7)),
      reads = [], flush_output_error = None, flush_input_error = None,
      serial = SerialProperty True\<rparr>"


text \<open>A register dictionary with every address from 100 to 723, each register 0.\<close>

definition full_register_map :: "int \<rightharpoonup> int" where
  "full_register_map = (\<lambda>a. if 100 \<le> a \<and> a < 724 then Some 0 else None)"

definition idle_client :: mqtt_client_state where
  "idle_client = \<lparr>outbox = [], loop_thread = Some True\<rparr>"

text \<open>
  A running process whose device was read at time 100 and is recorded as online.
\<close>

definition online_app :: app where
  "online_app =
     \<lparr>mqtt_client = Some idle_client, instrument = Some flaky_instrument,
      inverter = \<lparr>address = 1, last_success_ts = 100, publish_counter = 3,
                   availability = ''online''\<rparr>,
      last_update_ts = 100, mqtt_connected = True\<rparr>"

definition fresh_inverter :: solar_inverter where
  "fresh_inverter = \<lparr>modbus_id = 1, last_status = None\<rparr>"

definition sample_log_data :: log_data where
  "sample_log_data = [(''telemetry'', [(''normal'', [(''battery_soc'', PInt 80)])])]"

section \<open>Register decoding: results\<close>

lemma round_half_even_of_int: "round_half_even (of_int n) = n"
  by (simp add: round_half_even_def)

lemma py_round_exact: "py_round (of_int v / 10 ^ d) d = of_int v / 10 ^ d"
  by (simp add: py_round_def round_half_even_of_int)

text \<open>
  C3: for a register holding \<open>raw\<close>, the decoded value is \<open>raw - 65536\<close> when \<open>signed\<close>
  and \<open>raw > 32767\<close>, else \<open>raw\<close>; with \<open>decimals > 0\<close> it is divided by
  \<open>10 ^ decimals\<close> and rounded to that many decimals (which, on the exact quotient,
  changes nothing), otherwise it is returned unchanged as an integer. In particular
  65535 decodes to -1 when signed with no decimals, and 2200 to 220.0 with one decimal.
\<close>

theorem process_register_decodes:
  "(register_map reg = Some raw \<longrightarrow>
      process_register (PDict register_map) (PInt reg) decimals signed
        = Inr (if 0 < decimals
               then PFloat (py_round (of_int (if signed \<and> 32767 < raw then raw - 65536 else raw)
                                       / 10 ^ nat decimals) (nat decimals))
               else PInt (if signed \<and> 32767 < raw then raw - 65536 else raw)))
   \<and> py_round (of_int v / 10 ^ d) d = of_int v / 10 ^ d
   \<and> process_register (PDict [a \<mapsto> 65535]) (PInt a) 0 True = Inr (PInt (- 1))
   \<and> process_register (PDict [a \<mapsto> 2200]) (PInt a) 1 False = Inr (PFloat 220)"
  by (simp add: process_register_def py_round_exact Let_def py_round_def round_half_even_def)

theorem process_register_decodes_witness:
  "[277 \<mapsto> 65535] (277::int) = Some (65535::int)
   \<and> process_register (PDict [277 \<mapsto> 65535]) (PInt 277) 1 True = Inr (PFloat (- 1 / 10))"
  using process_register_decodes
          [where register_map = "[277 \<mapsto> 65535]" and reg = 277 and raw = 65535
             and decimals = 1 and signed = True and v = "- 1" and d = 1]
  by simp

section \<open>Telemetry mapping: results\<close>

text \<open>
  The first call of \<open>get_telemetry\<close> subscripts the number 277 with the dictionary, so
  the method raises whatever the dictionary holds.
\<close>

lemma get_telemetry_raises: "get_telemetry register_map = Inl TypeError_not_subscriptable"
  by (simp add: get_telemetry_def telemetry_calls_def process_register_def)

text \<open>
  C2: on a register dictionary that holds every address of the schema,
  \<open>get_telemetry\<close> returns no snapshot: it raises the type error of subscripting a
  number, which names no address. The claim asks for a complete snapshot here.
\<close>

theorem get_telemetry_full_map_raises:
  "list_all (\<lambda>(key, reg, decimals, signed). full_register_map reg \<noteq> None) telemetry_calls
   \<and> get_telemetry full_register_map = Inl TypeError_not_subscriptable"
  by (simp add: get_telemetry_raises) (simp add: telemetry_calls_def full_register_map_def)

section \<open>Paged reads: results\<close>

lemma page_dict_empty: "page_dict a [] = Map.empty"
  by (simp add: page_dict_def enumerate_eq_zip)

text \<open>
  A page is merged only when its last read came back empty, so the register dictionary
  leaves \<open>read_modbus\<close> as it entered.
\<close>

lemma read_pages_keeps_map: "fst (read_pages ps start register_map ins) = register_map"
  by (induction ps arbitrary: register_map ins)
     (auto simp: Let_def page_dict_empty split: prod.splits)

lemma read_modbus_keeps_map: "fst (read_modbus register_map start pages ins) = register_map"
  by (simp add: read_modbus_def read_pages_keeps_map)

text \<open>
  C1: with an instrument that fails four times and answers the fifth read of page 0 with
  124 registers, reading 3 pages from address 100 into an empty dictionary issues five
  reads, all at address 100, and returns the dictionary still empty: the answer of the
  fifth read is dropped and pages 1 and 2 are never read. The claim asks for addresses
  100 to 223 to be present and for the later pages to be read.
\<close>

theorem read_modbus_fifth_attempt:
  "read_modbus Map.empty 100 3 flaky_instrument
     = (Map.empty, flaky_instrument\<lparr>reads := [100, 100, 100, 100, 100]\<rparr>)"
  by (simp add: read_modbus_def flaky_instrument_def FRAME_READ_RETRIES_def REGISTER_PAGE_def
        read_registers_def upt_conv_Cons)

section \<open>The poll cycle: results\<close>

lemma poll_try_raises: "\<exists>e. fst (poll_try ins) = Inl e"
  by (auto simp: poll_try_def get_telemetry_raises split: option.splits prod.splits)

lemma poll_finish_pair: "\<exists>log_data poll_success. fst (poll_finish self outcome) = PollPair log_data poll_success"
  by (cases outcome) (auto simp: poll_finish_def)

lemma read_serial_data_some:
  "read_serial_data self (Some ins)
      = (fst (poll_finish self (fst (poll_try ins))),
         snd (poll_finish self (fst (poll_try ins))),
         Some (snd (poll_try ins)))"
  by (simp add: read_serial_data_def split: prod.splits)

text \<open>
  Since \<open>get_telemetry\<close> always raises, every poll cycle of this source that has an
  instrument ends in the handler: the two successful outcomes of \<open>poll_finish\<close> are
  never reached from \<open>poll_try\<close>.
\<close>

lemma read_serial_data_unproductive:
  "fst (read_serial_data self (Some ins)) = PollPair None False"
  using poll_try_raises [of ins] by (auto simp: read_serial_data_some poll_finish_def)

text \<open>
  The end of \<open>read_serial_data\<close> by itself does what is meant: a snapshot is returned
  with \<open>True\<close> when none is remembered or the remembered one differs, \<open>(None, True)\<close>
  when it is the remembered one, \<open>(None, False)\<close> after an exception.
\<close>

lemma poll_finish_outcomes:
  "(fst (poll_finish self outcome) = PollPair (Some d) True)
      = (outcome = Inr d \<and> (last_status self = None \<or> last_status self \<noteq> Some d))
   \<and> (fst (poll_finish self outcome) = PollPair None True)
      = (\<exists>d'. outcome = Inr d' \<and> last_status self = Some d')
   \<and> (fst (poll_finish self outcome) = PollPair None False)
      = (\<exists>e. outcome = Inl e)"
  by (cases outcome) (auto simp: poll_finish_def)


text \<open>
  C9: with the instrument unset, \<open>read_serial_data\<close> returns the bare \<open>None\<close>, and
  the unpacking in the main loop raises before anything else happens in that pass; with
  an instrument, the result is a pair and the instrument stays set.
\<close>

theorem read_serial_data_unset_instrument:
  "fst (read_serial_data self None) = PollNone
   \<and> main_iteration cfg (fst (read_serial_data self None)) now stamp st = (Some TypeError_unpack_None, st)
   \<and> main_step cfg now stamp (self, st\<lparr>instrument := None\<rparr>)
        = (Some TypeError_unpack_None, self, st\<lparr>instrument := None\<rparr>)
   \<and> (\<exists>log_data poll_success. fst (read_serial_data self (Some ins)) = PollPair log_data poll_success)
   \<and> (\<exists>ins'. snd (snd (read_serial_data self (Some ins))) = Some ins')"
  using poll_finish_pair [of self "fst (poll_try ins)"]
  by (simp add: read_serial_data_some)
     (simp add: read_serial_data_def main_iteration_def main_step_def)

theorem read_serial_data_unset_instrument_witness:
  "fst (read_serial_data fresh_inverter None) = PollNone
   \<and> main_step cfg30 50 ''2026-01-01 00:00:00'' (fresh_inverter, online_app\<lparr>instrument := None\<rparr>)
        = (Some TypeError_unpack_None, fresh_inverter, online_app\<lparr>instrument := None\<rparr>)
   \<and> fst (read_serial_data fresh_inverter (Some flaky_instrument)) \<noteq> PollNone"
  using read_serial_data_unset_instrument
          [where self = fresh_inverter and cfg = cfg30 and now = 50
             and stamp = "''2026-01-01 00:00:00''" and st = online_app and ins = flaky_instrument]
  by auto

section \<open>Health and availability: results\<close>

lemma max_age_formula: "compute_max_age_seconds cfg = max 15 (3 * MQTT_UPDATE_INTERVAL cfg + 5)"
  by (simp add: compute_max_age_seconds_def Let_def max_def)

lemma availability_after:
  "mqtt_client st = Some c \<Longrightarrow>
   availability (inverter (publish_inverter_availability cfg now st))
     = (if 0 < last_success_ts (inverter st)
           \<and> now - last_success_ts (inverter st) \<le> of_int (max 15 (3 * MQTT_UPDATE_INTERVAL cfg + 5))
        then ''online'' else ''offline'')"
  by (simp add: publish_inverter_availability_def max_age_formula Let_def)

text \<open>
  C5: the maximum age is \<open>max 15 (3 * interval + 5)\<close> for every configured interval; with
  a broker client, the availability helper leaves the device online if and only if its
  last success time is positive and at most the maximum age ago, and offline otherwise.
  With an interval of 30 the maximum age is 95, a last success 94 seconds ago (at a
  positive time) gives online and one 96 seconds ago gives offline.
\<close>

theorem availability_online_rule:
  "compute_max_age_seconds cfg = max 15 (3 * MQTT_UPDATE_INTERVAL cfg + 5)
   \<and> (mqtt_client st \<noteq> None \<longrightarrow>
        (availability (inverter (publish_inverter_availability cfg now st)) = ''online'')
          = (0 < last_success_ts (inverter st)
             \<and> now - last_success_ts (inverter st) \<le> of_int (max 15 (3 * MQTT_UPDATE_INTERVAL cfg + 5))))
   \<and> (mqtt_client st \<noteq> None \<longrightarrow>
        (availability (inverter (publish_inverter_availability cfg now st)) = ''offline'')
          = (\<not> (0 < last_success_ts (inverter st)
             \<and> now - last_success_ts (inverter st) \<le> of_int (max 15 (3 * MQTT_UPDATE_INTERVAL cfg + 5)))))
   \<and> (MQTT_UPDATE_INTERVAL cfg = 30 \<longrightarrow> compute_max_age_seconds cfg = 95)
   \<and> (MQTT_UPDATE_INTERVAL cfg = 30 \<and> mqtt_client st \<noteq> None \<and> 94 < now
        \<and> last_success_ts (inverter st) = now - 94 \<longrightarrow>
        availability (inverter (publish_inverter_availability cfg now st)) = ''online'')
   \<and> (MQTT_UPDATE_INTERVAL cfg = 30 \<and> mqtt_client st \<noteq> None
        \<and> last_success_ts (inverter st) = now - 96 \<longrightarrow>
        availability (inverter (publish_inverter_availability cfg now st)) = ''offline'')"
  by (auto simp: availability_after max_age_formula split: if_splits)

theorem availability_online_rule_witness:
  "MQTT_UPDATE_INTERVAL cfg30 = 30 \<and> mqtt_client online_app \<noteq> None \<and> (94::real) < 194
   \<and> last_success_ts (inverter online_app) = 194 - 94
   \<and> compute_max_age_seconds cfg30 = 95
   \<and> availability (inverter (publish_inverter_availability cfg30 194 online_app)) = ''online''"
  using availability_online_rule [where cfg = cfg30 and st = online_app and now = 194]
  by (simp add: cfg30_def online_app_def)

text \<open>
  C7: a GET for \<open>/health\<close> is answered 200 exactly when the broker is connected, its
  network loop is alive, the serial port is open and the last update is less than the
  maximum age ago, and 503 exactly when one of the four fails; any other path is answered
  404.
\<close>

theorem do_GET_status:
  "(fst (do_GET cfg path now st) = 200)
     = (path = ''/health'' \<and> mqtt_connected st \<and> mqtt_loop_running st \<and> serial_is_open st
        \<and> now - last_update_ts st < of_int (max 15 (3 * MQTT_UPDATE_INTERVAL cfg + 5)))
   \<and> (fst (do_GET cfg path now st) = 503)
     = (path = ''/health'' \<and> \<not> (mqtt_connected st \<and> mqtt_loop_running st \<and> serial_is_open st
        \<and> now - last_update_ts st < of_int (max 15 (3 * MQTT_UPDATE_INTERVAL cfg + 5))))
   \<and> (fst (do_GET cfg path now st) = 404) = (path \<noteq> ''/health'')"
  by (simp add: do_GET_def max_age_formula Let_def)

theorem do_GET_status_witness:
  "fst (do_GET cfg30 ''/health'' 150 online_app) = 200
   \<and> fst (do_GET cfg30 ''/health'' 195 online_app) = 503
   \<and> fst (do_GET cfg30 ''/healthz'' 150 online_app) = 404"
  using do_GET_status [where cfg = cfg30 and path = "''/health''" and now = 150 and st = online_app]
        do_GET_status [where cfg = cfg30 and path = "''/health''" and now = 195 and st = online_app]
        do_GET_status [where cfg = cfg30 and path = "''/healthz''" and now = 150 and st = online_app]
  by (simp add: cfg30_def online_app_def mqtt_loop_running_def serial_is_open_def
        idle_client_def flaky_instrument_def)

text \<open>
  C10: after the start of \<open>main\<close> at time \<open>t0\<close> the process-wide last update time is
  \<open>t0\<close> while the device has no success time and a publish counter of 0; so as long as
  less than the maximum age has passed since \<open>t0\<close> and the other three conditions hold,
  the probe answers 200 although no read has succeeded.
\<close>

theorem startup_probe_healthy:
  "last_update_ts (fst (main_startup cfg client ins t0 st)) = t0
   \<and> last_success_ts (inverter (fst (main_startup cfg client ins t0 st))) = 0
   \<and> publish_counter (inverter (fst (main_startup cfg client ins t0 st))) = 0
   \<and> (mqtt_connected (fst (main_startup cfg client ins t0 st))
        \<and> mqtt_loop_running (fst (main_startup cfg client ins t0 st))
        \<and> serial_is_open (fst (main_startup cfg client ins t0 st))
        \<and> now - t0 < of_int (compute_max_age_seconds cfg)
      \<longrightarrow> do_GET cfg ''/health'' now (fst (main_startup cfg client ins t0 st)) = (200, ''ok''))"
  by (simp add: main_startup_def do_GET_def Let_def)

theorem startup_probe_healthy_witness:
  "mqtt_connected (fst (main_startup cfg30 idle_client flaky_instrument 1000 online_app))
   \<and> mqtt_loop_running (fst (main_startup cfg30 idle_client flaky_instrument 1000 online_app))
   \<and> serial_is_open (fst (main_startup cfg30 idle_client flaky_instrument 1000 online_app))
   \<and> (1094 :: real) - 1000 < of_int (compute_max_age_seconds cfg30)
   \<and> last_success_ts (inverter (fst (main_startup cfg30 idle_client flaky_instrument 1000 online_app))) = 0
   \<and> do_GET cfg30 ''/health'' 1094 (fst (main_startup cfg30 idle_client flaky_instrument 1000 online_app))
        = (200, ''ok'')"
  using startup_probe_healthy [where cfg = cfg30 and client = idle_client and ins = flaky_instrument and ?t0.0 = 1000
               and st = online_app and now = 1094]
  by (simp add: main_startup_def cfg30_def online_app_def mqtt_loop_running_def serial_is_open_def
        idle_client_def flaky_instrument_def publish_def max_age_formula)

section \<open>The main loop: results\<close>

lemma main_iteration_counter:
  "publish_counter (inverter (snd (main_iteration cfg polled now stamp st)))
     = publish_counter (inverter st) + (if poll_succeeded polled then 1 else 0)"
  by (cases polled)
     (auto simp: main_iteration_def publish_inverter_availability_def Let_def
           split: option.splits)

lemma main_loop_counter:
  "publish_counter (inverter (main_loop cfg steps st))
     = publish_counter (inverter st) + int (length (filter (\<lambda>s. poll_succeeded (fst s)) steps))"
  by (induction steps arbitrary: st) (auto simp: main_iteration_counter)

text \<open>
  C8: one pass of the main loop adds exactly 1 to the publish counter when the poll cycle
  reported success and leaves it unchanged otherwise; over any run of passes the counter
  grows by the number of successful cycles, so it never decreases and is never reset.
\<close>

theorem publish_counter_counts_successes:
  "publish_counter (inverter (snd (main_iteration cfg polled now stamp st)))
     = publish_counter (inverter st) + (if poll_succeeded polled then 1 else 0)
   \<and> publish_counter (inverter (main_loop cfg steps st))
     = publish_counter (inverter st) + int (length (filter (\<lambda>s. poll_succeeded (fst s)) steps))
   \<and> publish_counter (inverter st) \<le> publish_counter (inverter (main_loop cfg steps st))"
  by (simp add: main_iteration_counter main_loop_counter)

theorem publish_counter_counts_successes_witness:
  "publish_counter (inverter (main_loop cfg30
      [(PollPair None True, 101, ''a''), (PollPair None False, 140, ''b''), (PollNone, 180, ''c''),
       (PollPair (Some sample_log_data) True, 220, ''d'')] online_app)) = 5"
  using publish_counter_counts_successes [where cfg = cfg30 and st = online_app and steps =
      "[(PollPair None True, 101, ''a''), (PollPair None False, 140, ''b''), (PollNone, 180, ''c''),
       (PollPair (Some sample_log_data) True, 220, ''d'')]"]
  by (simp add: online_app_def)

text \<open>The four topic names of one device and prefix differ from each other.\<close>

lemma topics_distinct:
  "heartbeat_topic cfg i \<noteq> availability_topic cfg i"
  "sensors_topic cfg i \<noteq> availability_topic cfg i"
  "process_topic cfg \<noteq> availability_topic cfg i"
  by (simp_all add: heartbeat_topic_def availability_topic_def sensors_topic_def process_topic_def)

lemma helper_client:
  "mqtt_client st = Some c \<Longrightarrow>
   mqtt_client (publish_inverter_availability cfg now st)
     = Some (if availability (inverter st) \<noteq> desired_availability cfg now (last_success_ts (inverter st))
             then publish (availability_topic cfg (address (inverter st)))
                    (Text (desired_availability cfg now (last_success_ts (inverter st)))) False c
             else c)"
  by (simp add: publish_inverter_availability_def Let_def desired_availability_def)

lemma helper_inverter:
  "mqtt_client st = Some c \<Longrightarrow>
   availability (inverter (publish_inverter_availability cfg now st))
     = desired_availability cfg now (last_success_ts (inverter st))"
  by (simp add: publish_inverter_availability_def Let_def desired_availability_def)

text \<open>What one pass with a broker client publishes, in order.\<close>

lemma iteration_client:
  "mqtt_client st = Some c \<Longrightarrow>
   sent (snd (main_iteration cfg (PollPair log_data poll_success) now stamp st))
     = outbox c
       @ (if poll_success
          then [\<lparr>topic = heartbeat_topic cfg (MODBUS_ID cfg),
                 body = Heartbeat stamp (publish_counter (inverter st) + 1), retain = False\<rparr>,
                \<lparr>topic = availability_topic cfg (MODBUS_ID cfg), body = Text ''online'',
                 retain = False\<rparr>]
          else [])
       @ (case log_data of
            None \<Rightarrow> []
          | Some d \<Rightarrow> if d \<noteq> [] then [\<lparr>topic = sensors_topic cfg (MODBUS_ID cfg),
                                          body = Sensors d, retain = False\<rparr>] else [])
       @ (if (if poll_success then ''online'' else availability (inverter st))
             \<noteq> desired_availability cfg now (if poll_success then now else last_success_ts (inverter st))
          then [\<lparr>topic = availability_topic cfg (address (inverter st)),
                 body = Text (desired_availability cfg now
                                (if poll_success then now else last_success_ts (inverter st))),
                 retain = False\<rparr>]
          else [])
       @ [\<lparr>topic = process_topic cfg, body = Text ''online'', retain = False\<rparr>]"
  by (cases poll_success; cases log_data)
     (simp_all add: main_iteration_def Let_def helper_client sent_def publish_def)

lemma iteration_availability:
  "mqtt_client st = Some c \<Longrightarrow>
   availability (inverter (snd (main_iteration cfg (PollPair log_data poll_success) now stamp st)))
     = desired_availability cfg now (if poll_success then now else last_success_ts (inverter st))"
  by (cases poll_success; cases log_data)
     (simp_all add: main_iteration_def Let_def helper_client helper_inverter)

text \<open>
  With an instrument, the pass is the body of the loop run on \<open>(None, False)\<close>, the
  only pair the poll cycle of this source returns.
\<close>

lemma main_step_with_instrument:
  "instrument st = Some ins \<Longrightarrow>
   main_step cfg now stamp (solar, st)
     = (fst (main_iteration cfg (PollPair None False) now stamp
               (st\<lparr>instrument := Some (snd (poll_try ins))\<rparr>)),
        solar,
        snd (main_iteration cfg (PollPair None False) now stamp
               (st\<lparr>instrument := Some (snd (poll_try ins))\<rparr>)))"
  using poll_try_raises [of ins]
  by (auto simp: main_step_def read_serial_data_def poll_finish_def split: prod.splits)

lemma main_step_sent:
  "mqtt_client st = Some c \<Longrightarrow> instrument st = Some ins \<Longrightarrow>
   sent (snd (snd (main_step cfg now stamp (solar, st))))
     = outbox c
       @ (if availability (inverter st) \<noteq> desired_availability cfg now (last_success_ts (inverter st))
          then [\<lparr>topic = availability_topic cfg (address (inverter st)),
                 body = Text (desired_availability cfg now (last_success_ts (inverter st))),
                 retain = False\<rparr>]
          else [])
       @ [\<lparr>topic = process_topic cfg, body = Text ''online'', retain = False\<rparr>]"
  by (simp add: main_step_with_instrument iteration_client)

lemma main_step_availability:
  "mqtt_client st = Some c \<Longrightarrow> instrument st = Some ins \<Longrightarrow>
   availability (inverter (snd (snd (main_step cfg now stamp (solar, st)))))
     = desired_availability cfg now (last_success_ts (inverter st))"
  by (simp add: main_step_with_instrument iteration_availability)

lemma main_step_without_client:
  assumes "mqtt_client st = None"
  shows "sent (snd (snd (main_step cfg now stamp (solar, st)))) = []
   \<and> inverter (snd (snd (main_step cfg now stamp (solar, st)))) = inverter st"
proof (cases "instrument st")
  case None
  with assms show ?thesis
    by (simp add: main_step_def read_serial_data_def main_iteration_def sent_def)
next
  case (Some ins)
  with assms show ?thesis
    by (simp add: main_step_with_instrument main_iteration_def sent_def)
qed

lemma main_step_without_instrument:
  "instrument st = None \<Longrightarrow>
   sent (snd (snd (main_step cfg now stamp (solar, st)))) = sent st
   \<and> inverter (snd (snd (main_step cfg now stamp (solar, st)))) = inverter st"
  by (simp add: main_step_def read_serial_data_def main_iteration_def sent_def)

text \<open>
  C6: in every pass of the main loop, poll cycle included, for the configured device: a
  message goes to the availability topic of the device if and only if the stored state
  changes in that pass; with a broker client and an instrument, the stored state after
  the pass is the state computed from the last success time, and the messages sent to
  the topic are that state alone when it differs from the state stored before, and none
  when it does not.
\<close>

theorem availability_published_on_change:
  "address (inverter st) = MODBUS_ID cfg \<longrightarrow>
     ((availability_sent cfg st (snd (snd (main_step cfg now stamp (solar, st)))) \<noteq> [])
        = (availability (inverter (snd (snd (main_step cfg now stamp (solar, st)))))
             \<noteq> availability (inverter st)))
     \<and> (mqtt_client st \<noteq> None \<and> instrument st \<noteq> None \<longrightarrow>
          availability (inverter (snd (snd (main_step cfg now stamp (solar, st)))))
            = desired_availability cfg now (last_success_ts (inverter st))
          \<and> availability_sent cfg st (snd (snd (main_step cfg now stamp (solar, st))))
            = (if availability (inverter st)
                  \<noteq> desired_availability cfg now (last_success_ts (inverter st))
               then [Text (desired_availability cfg now (last_success_ts (inverter st)))]
               else []))"
proof (intro impI)
  assume a: "address (inverter st) = MODBUS_ID cfg"
  show "((availability_sent cfg st (snd (snd (main_step cfg now stamp (solar, st)))) \<noteq> [])
        = (availability (inverter (snd (snd (main_step cfg now stamp (solar, st)))))
             \<noteq> availability (inverter st)))
     \<and> (mqtt_client st \<noteq> None \<and> instrument st \<noteq> None \<longrightarrow>
          availability (inverter (snd (snd (main_step cfg now stamp (solar, st)))))
            = desired_availability cfg now (last_success_ts (inverter st))
          \<and> availability_sent cfg st (snd (snd (main_step cfg now stamp (solar, st))))
            = (if availability (inverter st)
                  \<noteq> desired_availability cfg now (last_success_ts (inverter st))
               then [Text (desired_availability cfg now (last_success_ts (inverter st)))]
               else []))"
  proof (cases "mqtt_client st")
    case None
    then show ?thesis
      using main_step_without_client [of st cfg now stamp solar]
      by (simp add: availability_sent_def sent_def)
  next
    case (Some c)
    note c = this
    show ?thesis
    proof (cases "instrument st")
      case None
      then show ?thesis
        using main_step_without_instrument [of st cfg now stamp solar]
        by (simp add: availability_sent_def)
    next
      case (Some ins)
      have s: "sent st = outbox c" by (simp add: sent_def c)
      show ?thesis
        unfolding availability_sent_def s
        by (simp add: main_step_sent [OF c Some] main_step_availability [OF c Some] a c Some
              topics_distinct)
    qed
  qed
qed

theorem availability_published_on_change_witness:
  "address (inverter online_app) = MODBUS_ID cfg30
   \<and> mqtt_client online_app \<noteq> None \<and> instrument online_app \<noteq> None
   \<and> availability (inverter online_app) = ''online''
   \<and> availability_sent cfg30 online_app
        (snd (snd (main_step cfg30 300 ''2026-01-01 00:05:00'' (fresh_inverter, online_app))))
       = [Text ''offline'']
   \<and> availability (inverter
        (snd (snd (main_step cfg30 300 ''2026-01-01 00:05:00'' (fresh_inverter, online_app)))))
       = ''offline''"
proof -
  have d: "desired_availability cfg30 300 100 = ''offline''"
    by (simp add: desired_availability_def compute_max_age_seconds_def cfg30_def)
  have h: "address (inverter online_app) = MODBUS_ID cfg30"
    "mqtt_client online_app \<noteq> None" "instrument online_app \<noteq> None"
    by (simp_all add: online_app_def cfg30_def)
  have l: "last_success_ts (inverter online_app) = 100" "availability (inverter online_app) = ''online''"
    by (simp_all add: online_app_def)
  from availability_published_on_change
         [where st = online_app and cfg = cfg30 and now = 300
            and stamp = "''2026-01-01 00:05:00''" and solar = fresh_inverter]
       h
  show ?thesis by (simp add: d l)
qed

end
